theory Spec2Isabelle
  imports Main "HOL-Library.Sublist" "HOL-Library.Word" "HOL-Library.AList"
begin

section \<open>JavaScript strings\<close>

text \<open>
  A JavaScript string is modelled as a \<^typ>\<open>string\<close>, one \<^typ>\<open>char\<close> per code unit
  (code units 0..255). \<open>s.length\<close> is \<^const>\<open>length\<close>, \<open>s.substring(0, n)\<close> is
  \<^const>\<open>take\<close>, \<open>a + b\<close> is \<open>a @ b\<close>.
\<close>

text \<open>The characters matched by \<open>\s\<close> and removed by \<open>trim()\<close>: TAB, LF, VT, FF, CR,
  space and the no-break space.\<close>

definition isWhiteSpace :: "char \<Rightarrow> bool" where
  "isWhiteSpace c = (c \<in> set [CHR 0x09, CHR 0x0A, CHR 0x0B, CHR 0x0C, CHR 0x0D, CHR '' '', CHR 0xA0])"

text \<open>The characters matched by \<open>\d\<close>.\<close>

definition isDigit :: "char \<Rightarrow> bool" where
  "isDigit c = (c \<in> set ''0123456789'')"

text \<open>The line terminators in range, which \<open>.\<close> does not match.\<close>

definition isLineTerminator :: "char \<Rightarrow> bool" where
  "isLineTerminator c = (c = CHR 0x0A \<or> c = CHR 0x0D)"

definition trim :: "string \<Rightarrow> string" where
  "trim s = rev (dropWhile isWhiteSpace (rev (dropWhile isWhiteSpace s)))"


section \<open>content.js: cleaning and limiting the extracted text\<close>

text \<open>\<open>text.replace(/\s+/g, ' ')\<close>: every maximal run of white space becomes one space.\<close>

function replaceWhitespaceRuns :: "string \<Rightarrow> string" where
  "replaceWhitespaceRuns [] = []"
| "replaceWhitespaceRuns (c # cs) =
     (if isWhiteSpace c then CHR '' '' # replaceWhitespaceRuns (dropWhile isWhiteSpace cs)
      else c # replaceWhitespaceRuns cs)"
  by pat_completeness auto
termination
  by (relation "measure length") (auto simp: length_dropWhile_le less_Suc_eq_le)

text \<open>
  \<open>text.replace(/\n\s*\n/g, '\n')\<close>: at a line feed, \<open>\s*\<close> takes the whole run of white
  space that follows and gives back characters until the last line feed of the run; the
  match (the first line feed up to that last one) becomes one line feed and the scan goes
  on behind it.
\<close>

function replaceEmptyLines :: "string \<Rightarrow> string" where
  "replaceEmptyLines [] = []"
| "replaceEmptyLines (c # cs) =
     (let run = takeWhile isWhiteSpace cs in
      if c = CHR 0x0A \<and> CHR 0x0A \<in> set run
      then CHR 0x0A #
           replaceEmptyLines
             (drop (length run - length (takeWhile (\<lambda>d. d \<noteq> CHR 0x0A) (rev run))) cs)
      else c # replaceEmptyLines cs)"
  by pat_completeness auto
termination
  by (relation "measure length") auto

definition cleanText :: "string \<Rightarrow> string" where
  "cleanText text = trim (replaceEmptyLines (replaceWhitespaceRuns text))"

text \<open>
  \<open>extractPageContent\<close>, from the text that the selector loop and its body fallback have
  read out of the document (the DOM itself is not modelled): clean it, then limit it.
\<close>

definition extractPageContent :: "string \<Rightarrow> string" where
  "extractPageContent domText =
     (let content = cleanText domText in
      if length content > 2000 then take 2000 content @ ''...'' else content)"



section \<open>background.js: shared state and observable effects\<close>

text \<open>An \<open>Error\<close> object, with its message.\<close>

datatype error = Error (errorMessage: string)

text \<open>
  A provider session object (the result of \<open>LanguageModel.create\<close>): its identity, and
  the error that its \<open>destroy()\<close> throws, if it throws.
\<close>

record session =
  handle :: nat
  destroyError :: "error option"

text \<open>A locator as JavaScript hands it over: \<open>undefined\<close>, \<open>null\<close> or a string.\<close>

datatype js_url = Undefined | Null | Url string

record agent_status =
  alive :: bool
  ready :: bool
  statusUrl :: string
  statusTitle :: string
  lastPing :: nat

text \<open>Messages pushed with \<open>chrome.runtime.sendMessage\<close>.\<close>

datatype message =
    StreamingResponse (msgSessionId: "string option") (msgChunk: string) (msgFullResponse: string)

text \<open>
  The calls that leave the service worker, in the order they are made:
  \<open>chrome.tabs.sendMessage(tabId, {action: 'ping'})\<close>, \<open>chrome.scripting.executeScript\<close>,
  the settle \<open>setTimeout\<close> with its delay in milliseconds,
  \<open>chrome.tabs.sendMessage(tabId, {action: 'extractContent'})\<close>,
  \<open>session.prompt\<close>, \<open>session.promptStreaming\<close> and \<open>session.destroy\<close> on a session
  handle, \<open>chrome.runtime.sendMessage\<close>, and the \<open>sendResponse({success: cancelled})\<close>
  that answers a \<open>cancelSession\<close> message for a session id.
\<close>

datatype effect =
    Ping nat
  | ExecuteScript nat
  | SettleDelay nat
  | ExtractContent nat
  | Prompt nat string
  | PromptStreaming nat string
  | Destroy nat
  | RuntimeSendMessage message
  | CancelResponse string bool

text \<open>
  The module-level tables: \<open>activeSessions\<close>, \<open>activeConnections\<close> (the ports, by a
  number), \<open>contentScriptStatus\<close> (by tab id) and \<open>suggestionCache\<close>, a \<open>Map\<close> whose
  iteration order is its insertion order, kept as an association list in that order.
  \<open>trace\<close> collects the effects.
\<close>

record bg_state =
  activeSessions :: "string \<rightharpoonup> session"
  activeConnections :: "nat set"
  contentScriptStatus :: "nat \<rightharpoonup> agent_status"
  suggestionCache :: "(string \<times> string list) list"
  trace :: "effect list"

definition emit :: "effect \<Rightarrow> bg_state \<Rightarrow> bg_state" where
  "emit e st = st\<lparr>trace := trace st @ [e]\<rparr>"


section \<open>background.js: content-script readiness\<close>

text \<open>Each pattern of \<open>restrictedUrlPatterns\<close> is a literal anchored at the start.\<close>

definition restrictedUrlPatterns :: "string list" where
  "restrictedUrlPatterns =
     [''chrome://'', ''chrome-extension://'', ''moz-extension://'', ''edge-extension://'',
      ''file://'', ''about:'', ''data:'', ''blob:'']"

fun isRestrictedUrl :: "js_url \<Rightarrow> bool" where
  "isRestrictedUrl Undefined = True"
| "isRestrictedUrl Null = True"
| "isRestrictedUrl (Url url) =
     (if url = [] then True else list_ex (\<lambda>pattern. prefix pattern url) restrictedUrlPatterns)"

text \<open>
  What happens to one ping: the 3000 ms timer fires first, \<open>sendMessage\<close> throws,
  the callback runs with \<open>chrome.runtime.lastError\<close> set, or it runs with a response
  (\<open>None\<close> for an \<open>undefined\<close> one) at the time \<open>Date.now()\<close>.
\<close>

record ping_reply =
  replyAlive :: bool
  replyReady :: bool
  replyUrl :: string
  replyTitle :: string

datatype ping_outcome =
    PingTimeout
  | PingThrows
  | PingLastError
  | PingCallback "ping_reply option" nat

fun pingContentScript :: "ping_outcome \<Rightarrow> nat \<Rightarrow> bg_state \<Rightarrow> bool \<times> bg_state" where
  "pingContentScript PingThrows tabId st = (False, emit (Ping tabId) st)"
| "pingContentScript PingTimeout tabId st = (False, emit (Ping tabId) st)"
| "pingContentScript PingLastError tabId st = (False, emit (Ping tabId) st)"
| "pingContentScript (PingCallback None now) tabId st = (False, emit (Ping tabId) st)"
| "pingContentScript (PingCallback (Some response) now) tabId st =
     (if replyAlive response
      then (replyReady response,
            (emit (Ping tabId) st)\<lparr>contentScriptStatus := (contentScriptStatus st)(tabId \<mapsto>
               \<lparr>alive = True, ready = replyReady response, statusUrl = replyUrl response,
                statusTitle = replyTitle response, lastPing = now\<rparr>)\<rparr>)
      else (False, emit (Ping tabId) st))"

text \<open>
  What the page does during one \<open>ensureContentScript\<close>: the outcome of the first ping,
  whether \<open>executeScript\<close> rejects, and the outcome of the second ping.
\<close>

record agent_env =
  firstPing :: ping_outcome
  injectionFails :: bool
  secondPing :: ping_outcome

definition ensureContentScript :: "agent_env \<Rightarrow> nat \<Rightarrow> js_url \<Rightarrow> bg_state \<Rightarrow> bool \<times> bg_state" where
  "ensureContentScript env tabId url st =
     (if isRestrictedUrl url then (False, st)
      else
        (let (isReady, st1) = pingContentScript (firstPing env) tabId st in
         if isReady then (True, st1)
         else
           (let st2 = emit (ExecuteScript tabId) st1 in
            if injectionFails env then (False, st2)
            else pingContentScript (secondPing env) tabId (emit (SettleDelay 500) st2))))"


section \<open>background.js: suggestions and their cache\<close>

text \<open>\<open>Number.prototype.toString\<close> on an integer.\<close>

definition digitChar :: "nat \<Rightarrow> char" where
  "digitChar n = ''0123456789'' ! n"

function natToString :: "nat \<Rightarrow> string" where
  "natToString n =
     (if n < 10 then [digitChar n] else natToString (n div 10) @ [digitChar (n mod 10)])"
  by pat_completeness auto
termination
  by (relation "measure id") auto

declare natToString.simps [simp del]

definition intToString :: "int \<Rightarrow> string" where
  "intToString i = (if i < 0 then CHR ''-'' # natToString (nat (- i)) else natToString (nat i))"

text \<open>
  \<open>simpleHash\<close>: \<open>hash = ((hash << 5) - hash) + char\<close>, brought back to a signed 32-bit
  integer by \<open>hash & hash\<close> in every round, so the arithmetic is that of a 32-bit word read
  as signed at the end.
\<close>

definition simpleHash :: "string \<Rightarrow> string" where
  "simpleHash str =
     intToString (sint (foldl (\<lambda>hash c. (push_bit 5 hash - hash) + of_nat (of_char c))
                              (0 :: 32 word) str))"

text \<open>\<open>response.split('\n')\<close>.\<close>

fun splitLines :: "string \<Rightarrow> string list" where
  "splitLines [] = [[]]"
| "splitLines (c # cs) =
     (if c = CHR 0x0A then [] # splitLines cs
      else (case splitLines cs of [] \<Rightarrow> [[c]] | l # ls \<Rightarrow> (c # l) # ls))"

text \<open>
  \<open>line.match(/^\d+\.\s*(.+)$/)\<close>, giving the group \<open>match[1]\<close>. \<open>\d+\<close> takes all the
  leading digits (what follows has to be the dot), \<open>\s*\<close> takes the white space after the
  dot, and \<open>(.+)$\<close> has to reach the end of the line over characters that are no line
  terminators. When only white space follows the dot, \<open>\s*\<close> gives back its last
  character to the group.
\<close>

definition matchNumberedItem :: "string \<Rightarrow> string option" where
  "matchNumberedItem line =
     (let afterDigits = dropWhile isDigit line in
      if takeWhile isDigit line = [] then None
      else (case afterDigits of
              [] \<Rightarrow> None
            | d # afterDot \<Rightarrow>
                if d \<noteq> CHR ''.'' then None
                else (let rest = dropWhile isWhiteSpace afterDot in
                      if rest \<noteq> [] then
                        (if list_ex isLineTerminator rest then None else Some rest)
                      else if afterDot = [] then None
                      else if isLineTerminator (last afterDot) then None
                      else Some [last afterDot])))"

text \<open>\<open>suggestion.replace(/^["']|["']$/g, '')\<close>: one quote off the front, one off the end.\<close>

definition isQuote :: "char \<Rightarrow> bool" where
  "isQuote c = (c = CHR 0x22 \<or> c = CHR 0x27)"

definition stripQuotes :: "string \<Rightarrow> string" where
  "stripQuotes s =
     (let s1 = (case s of [] \<Rightarrow> [] | c # cs \<Rightarrow> if isQuote c then cs else s) in
      if s1 \<noteq> [] \<and> isQuote (last s1) then butlast s1 else s1)"

text \<open>The \<open>for\<close> loop of \<open>parseAISuggestions\<close> with its \<open>break\<close>, then the function.\<close>

fun parseLoop :: "string list \<Rightarrow> string list \<Rightarrow> string list" where
  "parseLoop [] suggestions = suggestions"
| "parseLoop (line # lines) suggestions =
     (case matchNumberedItem line of
        None \<Rightarrow> parseLoop lines suggestions
      | Some captured \<Rightarrow>
          if captured = [] then parseLoop lines suggestions
          else (let suggestions' = suggestions @ [stripQuotes (trim captured)] in
                if length suggestions' \<ge> 3 then suggestions' else parseLoop lines suggestions'))"

definition parseAISuggestions :: "string \<Rightarrow> string list" where
  "parseAISuggestions response =
     parseLoop (filter (\<lambda>line. trim line \<noteq> []) (splitLines response)) []"


definition getFallbackSuggestions :: "string list" where
  "getFallbackSuggestions =
     [''Summarize this page'', ''What are the main points?'', ''Explain this in simple terms'']"

definition suggestionPrompt :: "string \<Rightarrow> string \<Rightarrow> string \<Rightarrow> string" where
  "suggestionPrompt content title url =
     ''Based on the following webpage content, generate exactly 3 unique, specific, and contextually relevant questions or prompts that would help someone understand or engage with this content better.''
     @ [CHR 0x0A, CHR 0x0A] @ ''Page Title: '' @ title
     @ [CHR 0x0A] @ ''URL: '' @ url
     @ [CHR 0x0A] @ ''Content: '' @ take 1500 content @ ''...''
     @ [CHR 0x0A, CHR 0x0A] @ ''Requirements:''
     @ [CHR 0x0A] @ ''- Generate exactly 3 suggestions''
     @ [CHR 0x0A] @ ''- Make them specific to this content, not generic''
     @ [CHR 0x0A] @ ''- Focus on the most important or interesting aspects''
     @ [CHR 0x0A] @ ''- Keep each suggestion under 60 characters''
     @ [CHR 0x0A] @ ''- Format as a simple numbered list (1. 2. 3.)''
     @ [CHR 0x0A] @ ''- No explanations, just the suggestions''
     @ [CHR 0x0A, CHR 0x0A] @ ''Example format:''
     @ [CHR 0x0A] @ ''1. What are the key findings?''
     @ [CHR 0x0A] @ ''2. How does this compare to alternatives?''
     @ [CHR 0x0A] @ ''3. What are the practical implications?''"

text \<open>
  The provider as one call sees it: whether \<open>LanguageModel\<close> is in \<open>self\<close>, and what
  \<open>availability()\<close>, \<open>params()\<close> (with the reading of \<open>defaultTemperature\<close>),
  \<open>create()\<close> and \<open>session.prompt()\<close> give: a value, or the error they throw.
\<close>

record provider =
  hasLanguageModel :: bool
  availabilityResult :: "error + string"
  paramsResult :: "error + unit"
  createResult :: "error + session"
  promptResult :: "error + string"

text \<open>
  The cache write of \<open>generateAISuggestions\<close>: \<open>suggestionCache.set\<close> (a new key goes to
  the end, a present key keeps its place), then, above 50 entries, the deletion of the
  first key of the iteration order.
\<close>

definition cacheStore :: "string \<Rightarrow> string list \<Rightarrow> (string \<times> string list) list \<Rightarrow> (string \<times> string list) list" where
  "cacheStore contentHash suggestions cache =
     (let cache1 = AList.update contentHash suggestions cache in
      if length cache1 > 50 then AList.delete (fst (hd cache1)) cache1 else cache1)"

definition generateAISuggestions :: "provider \<Rightarrow> string \<Rightarrow> string \<Rightarrow> string \<Rightarrow> bg_state \<Rightarrow> string list \<times> bg_state" where
  "generateAISuggestions prov content title url st =
     (let contentHash = simpleHash (content @ title) in
      case map_of (suggestionCache st) contentHash of
        Some cached \<Rightarrow> (cached, st)
      | None \<Rightarrow>
          if \<not> hasLanguageModel prov then (getFallbackSuggestions, st)
          else (case availabilityResult prov of
              Inl e \<Rightarrow> (getFallbackSuggestions, st)
            | Inr availability \<Rightarrow>
                if availability \<noteq> ''available'' then (getFallbackSuggestions, st)
                else (case createResult prov of
                    Inl e \<Rightarrow> (getFallbackSuggestions, st)
                  | Inr session \<Rightarrow>
                      (let st1 = emit (Prompt (handle session) (suggestionPrompt content title url)) st in
                       case promptResult prov of
                         Inl e \<Rightarrow> (getFallbackSuggestions, emit (Destroy (handle session)) st1)
                       | Inr response \<Rightarrow>
                           (let suggestions = parseAISuggestions response in
                            if length suggestions = 3 then
                              (let st2 = st1\<lparr>suggestionCache :=
                                            cacheStore contentHash suggestions (suggestionCache st1)\<rparr> in
                               (if destroyError session \<noteq> None then getFallbackSuggestions else suggestions,
                                emit (Destroy (handle session)) st2))
                            else (getFallbackSuggestions, emit (Destroy (handle session)) st1))))))"

text \<open>The five-minute cleanup: above 30 entries, the first ten keys are deleted in order.\<close>

definition cacheCleanup :: "(string \<times> string list) list \<Rightarrow> (string \<times> string list) list" where
  "cacheCleanup cache =
     (if length cache > 30
      then fold AList.delete (take 10 (map fst cache)) cache
      else cache)"


section \<open>background.js: page content requests\<close>

record tab =
  tab_id :: nat
  tab_url :: js_url
  tab_title :: string

text \<open>
  The answer to the \<open>extractContent\<close> message: \<open>sendMessage\<close> throws, the callback runs
  with \<open>lastError\<close> set, with a successful response (content, url, title), or with a
  response that carries no success (and perhaps an error text).
\<close>

datatype extract_outcome =
    ExtractThrows error
  | ExtractLastError
  | ExtractSuccess string string string
  | ExtractFailure "string option"

record page_env =
  tabsQuery :: "error + tab list"
  tabsGet :: "error + tab"
  agent :: agent_env
  extraction :: extract_outcome
  suggestionProvider :: provider

text \<open>
  What \<open>sendResponse\<close> is given: \<open>{error}\<close>; the fallback page info (url, title, reason;
  with empty content, the fallback suggestions and \<open>fallback: true\<close>); the failed
  fallback \<open>{error: 'Failed to get page information', fallback: true}\<close>, with a reason
  when one was spread over it; or the extracted content (content, url, title) with its
  suggestions and \<open>aiGenerated\<close>.
\<close>

datatype page_response =
    ErrorResponse string
  | FallbackResponse js_url string string
  | FallbackFailedResponse "string option"
  | ContentResponse string string string "string list" bool

definition getFallbackPageInfo :: "page_env \<Rightarrow> page_response" where
  "getFallbackPageInfo env =
     (case tabsGet env of
        Inl e \<Rightarrow> FallbackFailedResponse None
      | Inr t \<Rightarrow> FallbackResponse (tab_url t) (tab_title t) ''Content script unavailable on this page type'')"

definition withReason :: "string \<Rightarrow> page_response \<Rightarrow> page_response" where
  "withReason r resp =
     (case resp of
        FallbackResponse u t _ \<Rightarrow> FallbackResponse u t r
      | FallbackFailedResponse _ \<Rightarrow> FallbackFailedResponse (Some r)
      | _ \<Rightarrow> resp)"

definition handlePageContentRequest :: "page_env \<Rightarrow> bg_state \<Rightarrow> page_response \<times> bg_state" where
  "handlePageContentRequest env st =
     (case tabsQuery env of
        Inl e \<Rightarrow> (ErrorResponse (''Failed to process page content request: '' @ errorMessage e), st)
      | Inr [] \<Rightarrow> (ErrorResponse ''No active tab found'', st)
      | Inr (t # _) \<Rightarrow>
          if isRestrictedUrl (tab_url t) then (getFallbackPageInfo env, st)
          else
            (let (isContentScriptReady, st1) = ensureContentScript (agent env) (tab_id t) (tab_url t) st in
             if \<not> isContentScriptReady then (getFallbackPageInfo env, st1)
             else
               (let st2 = emit (ExtractContent (tab_id t)) st1 in
                case extraction env of
                  ExtractThrows e \<Rightarrow>
                    (ErrorResponse (''Failed to process page content request: '' @ errorMessage e), st2)
                | ExtractLastError \<Rightarrow> (getFallbackPageInfo env, st2)
                | ExtractSuccess content url title \<Rightarrow>
                    (let (suggestions, st3) =
                           generateAISuggestions (suggestionProvider env) content title url st2 in
                     (ContentResponse content url title suggestions True, st3))
                | ExtractFailure err \<Rightarrow>
                    (withReason (case err of None \<Rightarrow> ''Content extraction failed''
                                 | Some m \<Rightarrow> if m = [] then ''Content extraction failed'' else m)
                                (getFallbackPageInfo env), st2))))"


section \<open>background.js: generation sessions\<close>

text \<open>
  \<open>cancelSession\<close>, and the \<open>cancelSession\<close> branch of the message listener, which
  answers with its result.
\<close>

definition cancelSession :: "string \<Rightarrow> bg_state \<Rightarrow> bool \<times> bg_state" where
  "cancelSession sessionId st =
     (case activeSessions st sessionId of
        None \<Rightarrow> (False, st)
      | Some session \<Rightarrow>
          (let st1 = emit (Destroy (handle session)) st in
           if destroyError session \<noteq> None then (False, st1)
           else (True, st1\<lparr>activeSessions := (activeSessions st1)(sessionId := None)\<rparr>)))"

definition onCancelSessionMessage :: "string \<Rightarrow> bg_state \<Rightarrow> bg_state" where
  "onCancelSessionMessage sessionId st =
     (let (cancelled, st1) = cancelSession sessionId st in
      emit (CancelResponse sessionId cancelled) st1)"

text \<open>
  What can run between two turns of a request, at its \<open>await\<close>s, and touch what the
  request reads: a \<open>cancelSession\<close> message, a popup port that connects, a popup port that
  disconnects (or is dropped by its heartbeat). Requests that run at the same time under
  other session ids write other entries of \<open>activeSessions\<close> and send messages under their
  own ids; a second request running under the same id is not among the events.
\<close>

datatype env_event =
    CancelSessionMessage string
  | PopupConnect nat
  | PopupDisconnect nat

fun applyEvent :: "env_event \<Rightarrow> bg_state \<Rightarrow> bg_state" where
  "applyEvent (CancelSessionMessage sessionId) st = onCancelSessionMessage sessionId st"
| "applyEvent (PopupConnect port) st = st\<lparr>activeConnections := insert port (activeConnections st)\<rparr>"
| "applyEvent (PopupDisconnect port) st = st\<lparr>activeConnections := activeConnections st - {port}\<rparr>"

definition applyEvents :: "env_event list \<Rightarrow> bg_state \<Rightarrow> bg_state" where
  "applyEvents evs st = fold applyEvent evs st"

text \<open>
  \<open>safeSendMessage\<close>: without a connection nothing is sent; otherwise
  \<open>chrome.runtime.sendMessage\<close> is called, and the promise is true only when the callback
  comes back without \<open>lastError\<close> before the 5000 ms timer. The trace records the call,
  whatever becomes of it, so the messages that arrive are among the messages of the trace.
\<close>

datatype send_outcome = SendThrows | SendLastError | SendTimeout | SendDelivered


text \<open>
  One step of the provider's stream: the events that run while the next chunk is awaited
  (also while the preceding send was awaited), then the chunk, with what becomes of its
  send, or the error the stream throws.
\<close>

datatype stream_turn = Chunk string send_outcome | StreamThrows error

datatype download_end = DownloadComplete | DownloadErrorEvent | DownloadTimeout

text \<open>
  One generation request's environment: the provider, the download session and how the
  download ends, the stream turn by turn, the events before the stream reports its end,
  and the events while the non-streaming \<open>session.prompt\<close> is awaited. Events that run
  before the session is registered find the tables as other requests left them; they are
  part of the state in which the request starts.
\<close>

record generation_env = provider +
  downloadCreateResult :: "error + session"
  downloadEnd :: download_end
  turns :: "(env_event list \<times> stream_turn) list"
  eventsAtEnd :: "env_event list"
  eventsDuringPrompt :: "env_event list"





text \<open>
  \<open>handleModelDownload\<close>, giving the error it throws, if any. The \<open>downloadProgress\<close>
  messages of the monitor are left out.
\<close>

definition handleModelDownload :: "generation_env \<Rightarrow> string \<Rightarrow> bg_state \<Rightarrow> error option \<times> bg_state" where
  "handleModelDownload env availability st =
     (if availability = ''downloadable'' then
        (case downloadCreateResult env of
           Inl e \<Rightarrow> (Some (Error (''Failed to download AI model: '' @ errorMessage e)), st)
         | Inr downloadSession \<Rightarrow>
             (case downloadEnd env of
                DownloadComplete \<Rightarrow>
                  (case destroyError downloadSession of
                     None \<Rightarrow> (None, emit (Destroy (handle downloadSession)) st)
                   | Some e \<Rightarrow>
                       (Some (Error (''Failed to download AI model: '' @ errorMessage e)),
                        emit (Destroy (handle downloadSession)) st))
              | DownloadErrorEvent \<Rightarrow> (Some (Error ''Failed to download AI model: undefined''), st)
              | DownloadTimeout \<Rightarrow> (Some (Error ''Failed to download AI model: Download timeout''), st)))
      else if availability = ''downloading'' then
        (Some (Error ''AI model is currently downloading. Please try again in a few moments.''), st)
      else (None, st))"

text \<open>Lines 525 to 527: the session is stored under a truthy id.\<close>

definition registerSession :: "string option \<Rightarrow> session \<Rightarrow> bg_state \<Rightarrow> bg_state" where
  "registerSession sessionId session st =
     (case sessionId of
        None \<Rightarrow> st
      | Some s \<Rightarrow> if s = [] then st else st\<lparr>activeSessions := (activeSessions st)(s \<mapsto> session)\<rparr>)"

text \<open>
  The \<open>try\<close> block of \<open>handlePromptAPI\<close> up to \<open>LanguageModel.create\<close> (lines 496 to
  522): the session, or the error thrown on the way. The parameters that
  \<open>validateParameters\<close> clamps are floating-point numbers that only the provider reads;
  what is kept of them is whether reading them throws.
\<close>

definition acquireSession :: "generation_env \<Rightarrow> bg_state \<Rightarrow> (error + session) \<times> bg_state" where
  "acquireSession env st =
     (if \<not> hasLanguageModel env then
        (Inl (Error ''Chrome Prompt API is not available. Please ensure you have Chrome 127+ and the AI features are enabled.''), st)
      else (case availabilityResult env of
          Inl e \<Rightarrow> (Inl e, st)
        | Inr availability \<Rightarrow>
            if availability = ''unavailable'' then
              (Inl (Error ''The AI language model is not available on this device.''), st)
            else
              (let (downloadError, st1) =
                     (if availability = ''downloadable'' \<or> availability = ''downloading''
                      then handleModelDownload env availability st else (None, st)) in
               case downloadError of
                 Some e \<Rightarrow> (Inl e, st1)
               | None \<Rightarrow>
                   (case paramsResult env of
                      Inl e \<Rightarrow> (Inl e, st1)
                    | Inr _ \<Rightarrow> (createResult env, st1)))))"






section \<open>background.js: availability\<close>

record availability_result =
  available :: bool
  status :: "string option"
  reason :: "string option"
  message :: string

definition checkAPIAvailability :: "provider \<Rightarrow> availability_result" where
  "checkAPIAvailability prov =
     (if \<not> hasLanguageModel prov then
        \<lparr>available = False, status = None, reason = Some ''API_NOT_FOUND'',
         message = ''Chrome Prompt API is not available. Please ensure you have Chrome 138+''\<rparr>
      else (case availabilityResult prov of
          Inl e \<Rightarrow>
            \<lparr>available = False, status = None, reason = Some ''ERROR'',
             message = ''Error checking availability: '' @ errorMessage e\<rparr>
        | Inr availability \<Rightarrow>
            if availability = ''available'' then
              \<lparr>available = True, status = Some ''ready'', reason = None,
               message = ''AI model is ready to use.''\<rparr>
            else if availability = ''downloadable'' then
              \<lparr>available = True, status = Some ''downloadable'', reason = None,
               message = ''AI model needs to be downloaded before first use.''\<rparr>
            else if availability = ''downloading'' then
              \<lparr>available = False, status = Some ''downloading'', reason = None,
               message = ''AI model is currently downloading. Please wait.''\<rparr>
            else if availability = ''unavailable'' then
              \<lparr>available = False, status = Some ''unavailable'', reason = None,
               message = ''AI model is not available on this device.''\<rparr>
            else
              \<lparr>available = False, status = Some ''unknown'', reason = None,
               message = ''Unknown availability status: '' @ availability\<rparr>))"

section \<open>Observations on traces\<close>




definition emitted :: "bg_state \<Rightarrow> bg_state \<Rightarrow> effect list" where
  "emitted st st' = drop (length (trace st)) (trace st')"

text \<open>The chunk that a stream turn carries, and the turns whose chunk is not empty.\<close>

fun chunkOf :: "env_event list \<times> stream_turn \<Rightarrow> string" where
  "chunkOf (evs, Chunk chunk outcome) = chunk"
| "chunkOf (evs, StreamThrows e) = []"

definition nonEmptyChunk :: "env_event list \<times> stream_turn \<Rightarrow> bool" where
  "nonEmptyChunk t = (case snd t of Chunk chunk outcome \<Rightarrow> chunk \<noteq> [] | StreamThrows e \<Rightarrow> True)"


section \<open>Invariants of the proofs\<close>

text \<open>
  What the proofs keep about the \<open>fullResponse\<close> values sent from a point of the loop on:
  each extends the one before and the text accumulated at that point, each is that text
  followed by the chunks of some first turns of what is left of the stream, and the
  extensions are proper when no chunk is empty.
\<close>

definition growing :: "(env_event list \<times> stream_turn) list \<Rightarrow> string \<Rightarrow> string list \<Rightarrow> bool" where
  "growing ts fullResponse ds =
     (sorted_wrt prefix ds \<and> list_all (prefix fullResponse) ds \<and>
      list_all (\<lambda>d. \<exists>k. d = fullResponse @ concat (map chunkOf (take k ts))) ds \<and>
      (list_all nonEmptyChunk ts \<longrightarrow>
         sorted_wrt strict_prefix ds \<and> list_all (strict_prefix fullResponse) ds))"






section \<open>Example inputs\<close>

text \<open>The tables of a service worker that has just started.\<close>

definition exampleState :: bg_state where
  "exampleState =
     \<lparr>activeSessions = Map.empty, activeConnections = {}, contentScriptStatus = Map.empty,
      suggestionCache = [], trace = []\<rparr>"

text \<open>A page whose first ping times out and whose content script answers after injection.\<close>

definition exampleAgent :: agent_env where
  "exampleAgent =
     \<lparr>firstPing = PingTimeout, injectionFails = False,
      secondPing = PingCallback (Some \<lparr>replyAlive = True, replyReady = True,
         replyUrl = ''https://example.com/'', replyTitle = ''Example''\<rparr>) 5\<rparr>"

text \<open>A provider without the \<open>LanguageModel\<close> capability.\<close>

definition exampleNoProvider :: provider where
  "exampleNoProvider =
     \<lparr>hasLanguageModel = False, availabilityResult = Inl (Error ''LanguageModel is not defined''),
      paramsResult = Inl (Error ''LanguageModel is not defined''),
      createResult = Inl (Error ''LanguageModel is not defined''),
      promptResult = Inl (Error ''LanguageModel is not defined'')\<rparr>"

text \<open>An active tab whose url is the empty string.\<close>

definition exampleBlankPage :: page_env where
  "exampleBlankPage =
     \<lparr>tabsQuery = Inr [\<lparr>tab_id = 1, tab_url = Url [], tab_title = ''New Tab''\<rparr>],
      tabsGet = Inr \<lparr>tab_id = 1, tab_url = Url [], tab_title = ''New Tab''\<rparr>,
      agent = exampleAgent, extraction = ExtractLastError,
      suggestionProvider = exampleNoProvider\<rparr>"


text \<open>Fifty-one distinct fingerprints, and a cache that holds the first fifty.\<close>

definition exampleHashes :: "string list" where
  "exampleHashes = map natToString [0..<51]"

definition exampleFullCache :: "(string \<times> string list) list" where
  "exampleFullCache = map (\<lambda>h. (h, [h, h, h])) (take 50 exampleHashes)"








section \<open>Content truncation\<close>

lemma dropWhile_hd_id: "s \<noteq> [] \<Longrightarrow> \<not> P (hd s) \<Longrightarrow> dropWhile P s = s"
  by (cases s) auto

lemma trim_id:
  "s \<noteq> [] \<Longrightarrow> \<not> isWhiteSpace (hd s) \<Longrightarrow> \<not> isWhiteSpace (last s) \<Longrightarrow> trim s = s"
  using dropWhile_hd_id [of s isWhiteSpace] dropWhile_hd_id [of "rev s" isWhiteSpace]
  by (simp add: trim_def hd_rev)

lemma replaceWhitespaceRuns_id:
  "\<forall>c \<in> set s. \<not> isWhiteSpace c \<Longrightarrow> replaceWhitespaceRuns s = s"
  by (induction s) auto

lemma replaceEmptyLines_id: "CHR 0x0A \<notin> set s \<Longrightarrow> replaceEmptyLines s = s"
  by (induction s) (auto simp: Let_def)

lemma isWhiteSpace_newline: "isWhiteSpace (CHR 0x0A)"
  by (simp add: isWhiteSpace_def)

lemma cleanText_id:
  assumes a: "\<forall>c \<in> set s. \<not> isWhiteSpace c"
  shows "cleanText s = s"
proof (cases "s = []")
  case True
  then show ?thesis by (simp add: cleanText_def trim_def)
next
  case False
  from a have n: "CHR 0x0A \<notin> set s" using isWhiteSpace_newline by blast
  from False a have "\<not> isWhiteSpace (hd s)" "\<not> isWhiteSpace (last s)" by auto
  then show ?thesis using a n False
    by (simp add: cleanText_def replaceWhitespaceRuns_id replaceEmptyLines_id trim_id)
qed

text \<open>
  C9. Cleaned page content longer than 2000 characters is returned as exactly its first
  2000 characters followed by the ellipsis marker \<open>...\<close> (2003 characters in all);
  cleaned content of 2000 characters or fewer is returned as it is.
\<close>

theorem extractPageContent_truncation:
  "(length (cleanText domText) > 2000 \<longrightarrow>
      extractPageContent domText = take 2000 (cleanText domText) @ ''...'' \<and>
      length (take 2000 (extractPageContent domText)) = 2000 \<and>
      drop 2000 (extractPageContent domText) = ''...'') \<and>
   (length (cleanText domText) \<le> 2000 \<longrightarrow>
      extractPageContent domText = cleanText domText)"
  by (auto simp: extractPageContent_def Let_def)

text \<open>The scenario of the specification, 2500 characters, and a short text.\<close>

theorem extractPageContent_truncation_witness:
  "length (cleanText (replicate 2500 (CHR ''a''))) > 2000 \<and>
   extractPageContent (replicate 2500 (CHR ''a'')) = replicate 2000 (CHR ''a'') @ ''...'' \<and>
   length (cleanText ''  short   text '') \<le> 2000 \<and>
   extractPageContent ''  short   text '' = ''short text''"
proof -
  have c: "cleanText (replicate 2500 (CHR ''a'')) = replicate 2500 (CHR ''a'')"
    by (rule cleanText_id) (simp add: isWhiteSpace_def)
  have d: "cleanText ''  short   text '' = ''short text''"
    by (simp add: cleanText_def trim_def isWhiteSpace_def Let_def)
  have h1: "length (cleanText (replicate 2500 (CHR ''a''))) > 2000" by (simp add: c)
  have h2: "length (cleanText ''  short   text '') \<le> 2000" by (simp add: d)
  from extractPageContent_truncation [of "replicate 2500 (CHR ''a'')"] h1
    extractPageContent_truncation [of "''  short   text ''"] h2
  show ?thesis by (simp add: c d)
qed


section \<open>Readiness of the content script\<close>

lemma pingContentScript_trace:
  "trace (snd (pingContentScript outcome tabId st)) = trace st @ [Ping tabId]"
  by (cases "(outcome, tabId, st)" rule: pingContentScript.cases) (auto simp: emit_def)

lemma pingContentScript_verdict:
  "fst (pingContentScript outcome tabId st) = fst (pingContentScript outcome tabId st')"
  by (cases "(outcome, tabId, st)" rule: pingContentScript.cases) auto

text \<open>
  C8. A locator string is restricted when it is empty or starts with one of the schemes
  \<open>chrome://\<close>, \<open>chrome-extension://\<close>, \<open>moz-extension://\<close>, \<open>edge-extension://\<close>,
  \<open>file://\<close>, \<open>about:\<close>, \<open>data:\<close>, \<open>blob:\<close>.
  On a restricted locator \<open>ensureContentScript\<close> returns false and leaves the state,
  with its trace, as it was: no probe. Otherwise it pings once; if that ping reports
  ready it returns true. If not, it calls \<open>executeScript\<close> once; if that fails it returns
  false; if not, it waits the 500 ms settle delay, pings a second time and returns the
  verdict of that second ping. So there are at most two pings, one injection, and no
  retry.
\<close>

theorem ensureContentScript_probes:
  "isRestrictedUrl (Url u) =
     (u = [] \<or>
      list_ex (\<lambda>scheme. prefix scheme u)
        [''chrome://'', ''chrome-extension://'', ''moz-extension://'', ''edge-extension://'',
         ''file://'', ''about:'', ''data:'', ''blob:'']) \<and>
   (isRestrictedUrl url \<longrightarrow> ensureContentScript env tabId url st = (False, st)) \<and>
   (\<not> isRestrictedUrl url \<longrightarrow>
      (let first = fst (pingContentScript (firstPing env) tabId st);
           second = fst (pingContentScript (secondPing env) tabId st);
           (verdict, st') = ensureContentScript env tabId url st
       in (first \<longrightarrow> verdict \<and> trace st' = trace st @ [Ping tabId]) \<and>
          (\<not> first \<and> injectionFails env \<longrightarrow>
             \<not> verdict \<and> trace st' = trace st @ [Ping tabId, ExecuteScript tabId]) \<and>
          (\<not> first \<and> \<not> injectionFails env \<longrightarrow>
             verdict = second \<and>
             trace st' = trace st @ [Ping tabId, ExecuteScript tabId, SettleDelay 500, Ping tabId])))"
proof -
  obtain r1 st1 where p1: "pingContentScript (firstPing env) tabId st = (r1, st1)"
    by (cases "pingContentScript (firstPing env) tabId st")
  have t1: "trace st1 = trace st @ [Ping tabId]"
    using pingContentScript_trace [of "firstPing env" tabId st] p1 by simp
  let ?st2 = "emit (SettleDelay 500) (emit (ExecuteScript tabId) st1)"
  obtain r2 st3 where p2: "pingContentScript (secondPing env) tabId ?st2 = (r2, st3)"
    by (cases "pingContentScript (secondPing env) tabId ?st2")
  have t3: "trace st3 = trace st @ [Ping tabId, ExecuteScript tabId, SettleDelay 500, Ping tabId]"
    using pingContentScript_trace [of "secondPing env" tabId ?st2] p2 t1 by (simp add: emit_def)
  have v2: "fst (pingContentScript (secondPing env) tabId st) = r2"
    using pingContentScript_verdict [of "secondPing env" tabId st ?st2] p2 by simp
  have r: "isRestrictedUrl (Url u) =
     (u = [] \<or>
      list_ex (\<lambda>scheme. prefix scheme u)
        [''chrome://'', ''chrome-extension://'', ''moz-extension://'', ''edge-extension://'',
         ''file://'', ''about:'', ''data:'', ''blob:''])"
    by (simp add: restrictedUrlPatterns_def)
  have e: "(isRestrictedUrl url \<longrightarrow> ensureContentScript env tabId url st = (False, st)) \<and>
   (\<not> isRestrictedUrl url \<longrightarrow>
      (let first = fst (pingContentScript (firstPing env) tabId st);
           second = fst (pingContentScript (secondPing env) tabId st);
           (verdict, st') = ensureContentScript env tabId url st
       in (first \<longrightarrow> verdict \<and> trace st' = trace st @ [Ping tabId]) \<and>
          (\<not> first \<and> injectionFails env \<longrightarrow>
             \<not> verdict \<and> trace st' = trace st @ [Ping tabId, ExecuteScript tabId]) \<and>
          (\<not> first \<and> \<not> injectionFails env \<longrightarrow>
             verdict = second \<and>
             trace st' = trace st @ [Ping tabId, ExecuteScript tabId, SettleDelay 500, Ping tabId])))"
    using p1 p2 t1 t3 v2 by (simp add: ensureContentScript_def Let_def emit_def)
  from r e show ?thesis by (rule conjI)
qed

text \<open>The scenario \<open>chrome://settings\<close>, and an ordinary page that needs the injection.\<close>

theorem ensureContentScript_probes_witness:
  "isRestrictedUrl (Url ''chrome://settings'') \<and>
   ensureContentScript exampleAgent 1 (Url ''chrome://settings'') exampleState = (False, exampleState) \<and>
   \<not> isRestrictedUrl (Url ''https://example.com/'') \<and>
   fst (ensureContentScript exampleAgent 1 (Url ''https://example.com/'') exampleState) \<and>
   trace (snd (ensureContentScript exampleAgent 1 (Url ''https://example.com/'') exampleState))
     = [Ping 1, ExecuteScript 1, SettleDelay 500, Ping 1]"
proof -
  have h1: "isRestrictedUrl (Url ''chrome://settings'')"
    by (simp add: restrictedUrlPatterns_def)
  have h2: "\<not> isRestrictedUrl (Url ''https://example.com/'')"
    by (simp add: restrictedUrlPatterns_def)
  from ensureContentScript_probes [where url = "Url ''chrome://settings''" and env = exampleAgent
         and tabId = 1 and st = exampleState] h1
       ensureContentScript_probes [where url = "Url ''https://example.com/''" and env = exampleAgent
         and tabId = 1 and st = exampleState] h2
  show ?thesis by (simp add: Let_def split_beta exampleState_def exampleAgent_def)
qed

text \<open>
  C10. A locator that is \<open>undefined\<close>, \<open>null\<close> or the empty string is classified as
  restricted; \<open>ensureContentScript\<close> then returns false with the state and its trace
  unchanged (no ping, no injection), and \<open>handlePageContentRequest\<close>, for an active tab
  with such a locator, answers with the fallback page info, again with no effect at all.
\<close>

theorem missing_locator_is_restricted:
  "url \<in> {Undefined, Null, Url []} \<Longrightarrow>
     isRestrictedUrl url \<and>
     ensureContentScript env tabId url st = (False, st) \<and>
     (tabsQuery penv = Inr (t # ts) \<and> tab_url t = url \<longrightarrow>
        handlePageContentRequest penv st = (getFallbackPageInfo penv, st))"
  by (auto simp: ensureContentScript_def handlePageContentRequest_def)

theorem missing_locator_is_restricted_witness:
  "Url [] \<in> {Undefined, Null, Url []} \<and>
   isRestrictedUrl (Url []) \<and>
   ensureContentScript exampleAgent 1 (Url []) exampleState = (False, exampleState) \<and>
   handlePageContentRequest exampleBlankPage exampleState =
     (FallbackResponse (Url []) ''New Tab'' ''Content script unavailable on this page type'',
      exampleState)"
proof -
  have h: "Url [] \<in> {Undefined, Null, Url []}" by simp
  have q: "tabsQuery exampleBlankPage = Inr [\<lparr>tab_id = 1, tab_url = Url [], tab_title = ''New Tab''\<rparr>]"
    by (simp add: exampleBlankPage_def)
  from missing_locator_is_restricted [OF h, of exampleAgent 1 exampleState exampleBlankPage
      "\<lparr>tab_id = 1, tab_url = Url [], tab_title = ''New Tab''\<rparr>" "[]"] q
  show ?thesis by (simp add: getFallbackPageInfo_def exampleBlankPage_def)
qed


section \<open>Availability\<close>

text \<open>
  C3 as the specification states it puts the absent capability under a status
  \<open>api_not_found\<close>. The result for the absent capability has no status at all; its tag is
  the reason \<open>API_NOT_FOUND\<close>.
\<close>

theorem checkAPIAvailability_absent_counterexample:
  "status (checkAPIAvailability exampleNoProvider) \<noteq> Some ''api_not_found'' \<and>
   status (checkAPIAvailability exampleNoProvider) = None \<and>
   reason (checkAPIAvailability exampleNoProvider) = Some ''API_NOT_FOUND''"
  by (simp add: checkAPIAvailability_def exampleNoProvider_def)

text \<open>
  C3, amended. \<open>checkAPIAvailability\<close> is a function of the provider's reported state,
  and each of the provider values available, downloadable, downloading and unavailable
  maps to one fixed result with the status ready, downloadable, downloading and
  unavailable and a fixed message; the absent capability maps to one fixed result that
  has no status and carries the reason \<open>API_NOT_FOUND\<close> with a fixed message.
\<close>

theorem checkAPIAvailability_mapping:
  "checkAPIAvailability (prov\<lparr>hasLanguageModel := False\<rparr>) =
     \<lparr>available = False, status = None, reason = Some ''API_NOT_FOUND'',
      message = ''Chrome Prompt API is not available. Please ensure you have Chrome 138+''\<rparr> \<and>
   checkAPIAvailability (prov\<lparr>hasLanguageModel := True, availabilityResult := Inr ''available''\<rparr>) =
     \<lparr>available = True, status = Some ''ready'', reason = None,
      message = ''AI model is ready to use.''\<rparr> \<and>
   checkAPIAvailability (prov\<lparr>hasLanguageModel := True, availabilityResult := Inr ''downloadable''\<rparr>) =
     \<lparr>available = True, status = Some ''downloadable'', reason = None,
      message = ''AI model needs to be downloaded before first use.''\<rparr> \<and>
   checkAPIAvailability (prov\<lparr>hasLanguageModel := True, availabilityResult := Inr ''downloading''\<rparr>) =
     \<lparr>available = False, status = Some ''downloading'', reason = None,
      message = ''AI model is currently downloading. Please wait.''\<rparr> \<and>
   checkAPIAvailability (prov\<lparr>hasLanguageModel := True, availabilityResult := Inr ''unavailable''\<rparr>) =
     \<lparr>available = False, status = Some ''unavailable'', reason = None,
      message = ''AI model is not available on this device.''\<rparr>"
  by (simp add: checkAPIAvailability_def)


section \<open>The suggestion cache\<close>

lemma update_fresh: "k \<notin> fst ` set al \<Longrightarrow> AList.update k v al = al @ [(k, v)]"
  by (induction al) auto

lemma delete_first_key:
  "distinct (map fst (p # ps)) \<Longrightarrow> AList.delete (fst p) (p # ps) = ps"
  by (auto simp: AList.delete_eq image_iff intro!: filter_True)

lemma delete_first_key_shorter: "al \<noteq> [] \<Longrightarrow> length (AList.delete (fst (hd al)) al) < length al"
  by (cases al) (auto simp: AList.delete_eq intro: le_imp_less_Suc)

lemma length_update_le: "length (AList.update k v al) \<le> Suc (length al)"
  by (induction al) auto

lemma cacheStore_length: "length cache \<le> 50 \<Longrightarrow> length (cacheStore k v cache) \<le> 50"
proof -
  assume a: "length cache \<le> 50"
  let ?c1 = "AList.update k v cache"
  have l: "length ?c1 \<le> 51" using length_update_le [of k v cache] a by simp
  show ?thesis
  proof (cases "length ?c1 > 50")
    case True
    then have "?c1 \<noteq> []" by auto
    from delete_first_key_shorter [OF this] l True show ?thesis
      by (simp add: cacheStore_def Let_def)
  next
    case False
    then show ?thesis by (simp add: cacheStore_def Let_def)
  qed
qed

lemma cacheStore_fresh_room:
  "k \<notin> fst ` set cache \<Longrightarrow> length cache < 50 \<Longrightarrow> cacheStore k v cache = cache @ [(k, v)]"
  by (simp add: cacheStore_def update_fresh)

lemma cacheStore_fresh_full:
  assumes "k \<notin> fst ` set cache" "distinct (map fst cache)" "length cache = 50"
  shows "cacheStore k v cache = tl cache @ [(k, v)]"
proof -
  from assms(3) obtain p ps where c: "cache = p # ps" by (cases cache) auto
  have d: "distinct (map fst (p # (ps @ [(k, v)])))" using assms(1,2) c by auto
  have "AList.delete (fst p) (p # (ps @ [(k, v)])) = ps @ [(k, v)]"
    by (rule delete_first_key [OF d])
  then show ?thesis using assms c by (auto simp: cacheStore_def update_fresh Let_def)
qed

lemma cacheStore_sequence:
  "distinct hashes \<Longrightarrow>
     map fst (fold (\<lambda>h. cacheStore h (sugg h)) hashes []) = drop (length hashes - 50) hashes"
proof (induction hashes rule: rev_induct)
  case Nil
  then show ?case by simp
next
  case (snoc h hs)
  let ?c = "fold (\<lambda>h. cacheStore h (sugg h)) hs []"
  from snoc have keys: "map fst ?c = drop (length hs - 50) hs" by simp
  have "set (map fst ?c) \<subseteq> set hs" unfolding keys by (rule set_drop_subset)
  with snoc.prems have fresh: "h \<notin> fst ` set ?c" by auto
  have dist: "distinct (map fst ?c)" using keys snoc.prems by simp
  have len: "length ?c = min (length hs) 50"
    using arg_cong [OF keys, of length] by simp
  show ?case
  proof (cases "length hs < 50")
    case True
    with len have "length ?c < 50" by simp
    from cacheStore_fresh_room [OF fresh this] keys True show ?thesis by simp
  next
    case False
    with len have l: "length ?c = 50" by simp
    have s: "Suc (length hs - 50) = length hs - 49" using False by arith
    have "tl (drop (length hs - 50) hs) = drop (Suc (length hs - 50)) hs"
      by (simp add: drop_Suc tl_drop)
    with s have t: "tl (drop (length hs - 50) hs) = drop (length hs - 49) hs" by simp
    have "map fst (cacheStore h (sugg h) ?c) = tl (map fst ?c) @ [h]"
      by (simp add: cacheStore_fresh_full [OF fresh dist l] map_tl)
    with keys t False show ?thesis by simp
  qed
qed

lemma cacheCleanup_drop_aux:
  "distinct (map fst cache) \<Longrightarrow> fold AList.delete (take n (map fst cache)) cache = drop n cache"
proof (induction n arbitrary: cache)
  case 0
  then show ?case by simp
next
  case (Suc n)
  show ?case
  proof (cases cache)
    case Nil
    then show ?thesis by simp
  next
    case (Cons p ps)
    with Suc.prems have "AList.delete (fst p) (p # ps) = ps" by (intro delete_first_key) simp
    with Cons Suc show ?thesis by simp
  qed
qed

lemma cacheCleanup_drop:
  "distinct (map fst cache) \<Longrightarrow>
     cacheCleanup cache = (if length cache > 30 then drop 10 cache else cache)"
  by (simp add: cacheCleanup_def cacheCleanup_drop_aux)

lemma generateAISuggestions_cache:
  "suggestionCache (snd (generateAISuggestions prov content title url st)) = suggestionCache st \<or>
   (\<exists>suggestions. suggestionCache (snd (generateAISuggestions prov content title url st)) =
       cacheStore (simpleHash (content @ title)) suggestions (suggestionCache st))"
  by (auto simp: generateAISuggestions_def Let_def emit_def split: option.splits sum.splits)

text \<open>
  C5. A cache of at most 50 entries has at most 50 entries after the cache write of
  \<open>generateAISuggestions\<close>, and after the whole function. Writing a new fingerprint
  appends it; when the cache is full the write removes exactly the first entry of the
  insertion order, the one inserted earliest. From the empty cache, after any sequence of
  distinct fingerprints, the cache holds exactly the last 50 of them in their order. The
  periodic cleanup removes the ten earliest entries when more than 30 are held.
\<close>

theorem suggestionCache_bound_fifo:
  "(length (suggestionCache st) \<le> 50 \<longrightarrow>
      length (suggestionCache (snd (generateAISuggestions prov content title url st))) \<le> 50) \<and>
   (length cache \<le> 50 \<longrightarrow> length (cacheStore h v cache) \<le> 50) \<and>
   (distinct (map fst cache) \<and> h \<notin> fst ` set cache \<and> length cache < 50 \<longrightarrow>
      cacheStore h v cache = cache @ [(h, v)]) \<and>
   (distinct (map fst cache) \<and> h \<notin> fst ` set cache \<and> length cache = 50 \<longrightarrow>
      cacheStore h v cache = tl cache @ [(h, v)]) \<and>
   (distinct hashes \<longrightarrow>
      map fst (fold (\<lambda>h. cacheStore h (sugg h)) hashes []) = drop (length hashes - 50) hashes) \<and>
   (distinct (map fst cache) \<longrightarrow>
      cacheCleanup cache = (if length cache > 30 then drop 10 cache else cache))"
proof -
  have g: "length (suggestionCache st) \<le> 50 \<Longrightarrow>
      length (suggestionCache (snd (generateAISuggestions prov content title url st))) \<le> 50"
    using generateAISuggestions_cache [of prov content title url st]
    by (auto simp: cacheStore_length)
  show ?thesis
    using g cacheStore_length [of cache h v] cacheStore_fresh_room [of h cache v]
      cacheStore_fresh_full [of h cache v] cacheStore_sequence [of hashes sugg]
      cacheCleanup_drop [of cache]
    by blast
qed

text \<open>The scenario of 51 fingerprints: the first is gone, the other 50 remain.\<close>

theorem suggestionCache_bound_fifo_witness:
  "distinct exampleHashes \<and> length exampleHashes = 51 \<and>
   map fst (fold (\<lambda>h. cacheStore h [h, h, h]) exampleHashes []) = tl exampleHashes \<and>
   distinct (map fst exampleFullCache) \<and> ''50'' \<notin> fst ` set exampleFullCache \<and>
   length exampleFullCache = 50 \<and>
   cacheStore ''50'' [] exampleFullCache = tl exampleFullCache @ [(''50'', [])] \<and>
   length (cacheStore ''50'' [] exampleFullCache) \<le> 50 \<and>
   cacheCleanup exampleFullCache = drop 10 exampleFullCache \<and>
   length (suggestionCache exampleState) \<le> 50 \<and>
   length (suggestionCache (snd (generateAISuggestions exampleNoProvider ''text'' ''title'' ''https://example.com/'' exampleState))) \<le> 50"
proof -
  have h1: "distinct exampleHashes" unfolding exampleHashes_def by code_simp
  have h2: "length exampleHashes = 51" by (simp add: exampleHashes_def)
  have h3: "distinct (map fst exampleFullCache)"
    unfolding exampleFullCache_def exampleHashes_def by code_simp
  have h4: "''50'' \<notin> fst ` set exampleFullCache"
    unfolding exampleFullCache_def exampleHashes_def by code_simp
  have h5: "length exampleFullCache = 50" by (simp add: exampleFullCache_def exampleHashes_def)
  have h6: "length (suggestionCache exampleState) \<le> 50" by (simp add: exampleState_def)
  have d: "drop (51 - 50) exampleHashes = tl exampleHashes" by (simp add: drop_Suc)
  from suggestionCache_bound_fifo [where hashes = exampleHashes and sugg = "\<lambda>h. [h, h, h]"
      and cache = exampleFullCache and h = "''50''" and v = "[]" and st = exampleState
      and prov = exampleNoProvider and content = "''text''" and title = "''title''"
      and url = "''https://example.com/''"]
    h1 h2 h3 h4 h5 h6 d
  show ?thesis by simp
qed


section \<open>Parsing and caching suggestions\<close>








lemma stripQuotes_none: "s = [] \<or> (\<not> isQuote (hd s) \<and> \<not> isQuote (last s)) \<Longrightarrow> stripQuotes s = s"
  by (cases s) (auto simp: stripQuotes_def)






section \<open>Generation sessions\<close>

subsection \<open>What a run adds to the trace\<close>



lemma emitted_self [simp]: "emitted st st = []"
  by (simp add: emitted_def)

lemma emitted_emit [simp]: "emitted st (emit e st) = [e]"
  by (simp add: emitted_def emit_def)


lemma emit_fields [simp]:
  "activeSessions (emit e st) = activeSessions st"
  "activeConnections (emit e st) = activeConnections st"
  "suggestionCache (emit e st) = suggestionCache st"
  "contentScriptStatus (emit e st) = contentScriptStatus st"
  "trace (emit e st) = trace st @ [e]"
  by (simp_all add: emit_def)





lemma applyEvents_Nil [simp]: "applyEvents [] st = st"
  by (simp add: applyEvents_def)

lemma applyEvents_Cons [simp]: "applyEvents (ev # evs) st = applyEvents evs (applyEvent ev st)"
  by (simp add: applyEvents_def)


subsection \<open>No message after a cancellation\<close>












lemma registerSession_trace [simp]: "trace (registerSession sessionId session st) = trace st"
  by (simp add: registerSession_def split: option.splits)

lemma registerSession_connections [simp]:
  "activeConnections (registerSession sessionId session st) = activeConnections st"
  by (simp add: registerSession_def split: option.splits)









lemma acquireSession_created:
  "fst (acquireSession env st) = Inr session \<Longrightarrow> createResult env = Inr session"
  unfolding acquireSession_def Let_def split_beta
  by (auto split: sum.splits option.splits if_splits)












subsection \<open>The chain of full responses\<close>




lemma growing_Nil [simp]: "growing ts fullResponse []"
  by (simp add: growing_def)









subsection \<open>How often the session is destroyed\<close>














subsection \<open>A session id that is already active\<close>













end
